theory Spec2Isabelle
  imports Main "HOL-Library.Multiset"
begin

section \<open>Server side: the tables of \<open>database_schema_v2_messages.sql\<close>\<close>

text \<open>
  The message store is a PostgreSQL schema. A table is modelled by its rows, a nullable
  column by an \<open>option\<close> (\<open>None\<close> is SQL \<open>NULL\<close>), and a \<open>TIMESTAMP WITH TIME ZONE\<close>
  by the number of microseconds since the epoch, which is the resolution PostgreSQL
  stores. Tables with a primary or unique key that is only ever looked up by that key
  (\<open>users_v2\<close>, \<open>groups\<close>, \<open>app_settings\<close>) are maps from the key; \<open>messages_v2\<close> is the
  list of its rows in insertion order. Only the columns that the functions of the schema
  read or write are kept; the column \<open>id\<close> of \<open>messages_v2\<close> is \<open>row_id\<close> here, and the
  columns of \<open>users_v2\<close> carry the prefix \<open>u_\<close>. An \<open>INTEGER\<close> is an \<open>int\<close>: no operation
  below can leave the 32 bit range on values inside it. The range limits of timestamps
  are not modelled. The functions are \<open>SECURITY DEFINER\<close>, so no row level policy applies
  inside them.
\<close>

type_synonym uuid = string
type_synonym timestamptz = int

datatype user_role = Guest | Normal | Admin | Operator

record users_v2_row =
  u_username :: string
  u_display_name :: "string option"
  u_role :: user_role
  u_last_active :: "timestamptz option"
  u_is_online :: "bool option"

record groups_row =
  message_deletion_timer :: "int option"
  is_active :: "bool option"

record app_settings_row =
  setting_value :: string
  updated_by :: "uuid option"
  updated_at :: "timestamptz option"

record messages_v2_row =
  row_id :: uuid
  user_id :: uuid
  username :: string
  display_name :: "string option"
  content :: string
  message_type :: string
  group_id :: "uuid option"
  user_role :: user_role
  created_at :: timestamptz
  expires_at :: timestamptz
  is_pinned :: "bool option"

record database =
  users_v2 :: "uuid \<rightharpoonup> users_v2_row"
  groups :: "uuid \<rightharpoonup> groups_row"
  messages_v2 :: "messages_v2_row list"
  app_settings :: "string \<rightharpoonup> app_settings_row"

text \<open>
  Every way a statement of the schema can abort: a \<open>RAISE EXCEPTION\<close> with its text, a
  failed cast of \<open>setting_value\<close> to \<open>INTEGER\<close>, and the violation of a named constraint.
  An aborted call leaves the database as it was, so an error carries no new state.
\<close>

datatype sql_error =
    Raised string
  | Invalid_Integer_Text string
  | Check_Violation string
  | Unique_Violation string
  | Foreign_Key_Violation string

subsection \<open>SQL's three-valued logic\<close>

definition sql_eq :: "'a option \<Rightarrow> 'a option \<Rightarrow> bool option" where
  "sql_eq a b = (case a of None \<Rightarrow> None
                 | Some x \<Rightarrow> (case b of None \<Rightarrow> None | Some y \<Rightarrow> Some (x = y)))"

definition sql_not :: "bool option \<Rightarrow> bool option" where
  "sql_not a = (case a of None \<Rightarrow> None | Some x \<Rightarrow> Some (\<not> x))"

definition sql_and :: "bool option \<Rightarrow> bool option \<Rightarrow> bool option" where
  "sql_and a b =
     (if a = Some False \<or> b = Some False then Some False
      else if a = Some True \<and> b = Some True then Some True
      else None)"

definition sql_or :: "bool option \<Rightarrow> bool option \<Rightarrow> bool option" where
  "sql_or a b =
     (if a = Some True \<or> b = Some True then Some True
      else if a = Some False \<and> b = Some False then Some False
      else None)"

text \<open>A \<open>WHERE\<close> or \<open>IF\<close> condition selects only on \<open>TRUE\<close>; a \<open>CHECK\<close> rejects only on \<open>FALSE\<close>.\<close>

definition is_true :: "bool option \<Rightarrow> bool" where
  "is_true a = (a = Some True)"

definition check_passes :: "bool option \<Rightarrow> bool" where
  "check_passes a = (a \<noteq> Some False)"

subsection \<open>Integer arithmetic and the cast from \<open>TEXT\<close>\<close>

text \<open>Division of two \<open>INTEGER\<close>s truncates towards zero.\<close>

definition integer_div :: "int \<Rightarrow> int \<Rightarrow> int" where
  "integer_div a b = sgn a * sgn b * (\<bar>a\<bar> div \<bar>b\<bar>)"

text \<open>
  \<open>setting_value::INTEGER\<close> accepts optional white space around an optionally signed run
  of decimal digits whose value fits 32 bits, and raises on anything else.
\<close>

definition is_space :: "char \<Rightarrow> bool" where
  "is_space c = (c \<in> set [CHR 0x20, CHR 0x09, CHR 0x0A, CHR 0x0B, CHR 0x0C, CHR 0x0D])"

definition digit_of :: "char \<Rightarrow> nat option" where
  "digit_of c = (let n = (of_char c :: nat) in if 48 \<le> n \<and> n \<le> 57 then Some (n - 48) else None)"

fun digits_value :: "string \<Rightarrow> nat \<Rightarrow> nat option" where
  "digits_value [] acc = Some acc"
| "digits_value (c # cs) acc =
     (case digit_of c of None \<Rightarrow> None | Some d \<Rightarrow> digits_value cs (acc * 10 + d))"

definition text_to_integer :: "string \<Rightarrow> int option" where
  "text_to_integer s =
     (let t = rev (dropWhile is_space (rev (dropWhile is_space s)));
          neg = (t \<noteq> [] \<and> hd t = CHR ''-'');
          ds = (if t \<noteq> [] \<and> (hd t = CHR ''-'' \<or> hd t = CHR ''+'') then tl t else t)
      in if ds = [] then None
         else (case digits_value ds 0 of
                 None \<Rightarrow> None
               | Some n \<Rightarrow>
                   (let v = (if neg then - int n else int n)
                    in if - 2147483648 \<le> v \<and> v \<le> 2147483647 then Some v else None)))"

subsection \<open>\<open>calculate_message_ttl\<close>\<close>

text \<open>
  The \<open>SELECT (message_deletion_timer / 3600) INTO retention_hours FROM groups WHERE
  id = p_group_id AND is_active = true\<close> of the group branch: \<open>None\<close> when no row is
  selected or when the selected row's timer is \<open>NULL\<close>.
\<close>

definition select_group_retention :: "database \<Rightarrow> uuid \<Rightarrow> int option" where
  "select_group_retention db p_group_id =
     (case groups db p_group_id of
        None \<Rightarrow> None
      | Some g \<Rightarrow>
          if is_true (sql_eq (is_active g) (Some True))
          then map_option (\<lambda>t. integer_div t 3600) (message_deletion_timer g)
          else None)"

text \<open>
  The \<open>SELECT setting_value::INTEGER INTO retention_hours FROM app_settings WHERE
  setting_key = 'default_message_retention_hours'\<close> of the last branch and of
  \<open>get_message_retention_hours\<close>: \<open>None\<close> when the row is missing, an error when its
  value is not an integer.
\<close>

definition select_default_retention :: "database \<Rightarrow> sql_error + int option" where
  "select_default_retention db =
     (case app_settings db ''default_message_retention_hours'' of
        None \<Rightarrow> Inr None
      | Some r \<Rightarrow>
          (case text_to_integer (setting_value r) of
             None \<Rightarrow> Inl (Invalid_Integer_Text (setting_value r))
           | Some h \<Rightarrow> Inr (Some h)))"

text \<open>The value of the local variable \<open>retention_hours\<close> when the \<open>IF\<close> chain is left.\<close>

definition retention_hours :: "database \<Rightarrow> string \<Rightarrow> uuid option \<Rightarrow> int option \<Rightarrow> sql_error + int" where
  "retention_hours db p_message_type p_group_id p_custom_retention_hours =
     (case p_custom_retention_hours of
        Some h \<Rightarrow> Inr h
      | None \<Rightarrow>
          if p_message_type = ''group'' \<and> p_group_id \<noteq> None then
            (case select_group_retention db (the p_group_id) of
               None \<Rightarrow> Inr 24
             | Some h \<Rightarrow> Inr h)
          else
            (case select_default_retention db of
               Inl e \<Rightarrow> Inl e
             | Inr None \<Rightarrow> Inr 24
             | Inr (Some h) \<Rightarrow> Inr h))"

definition hours_interval :: "int \<Rightarrow> int" where
  "hours_interval h = h * 3600000000"

definition calculate_message_ttl ::
  "database \<Rightarrow> timestamptz \<Rightarrow> string \<Rightarrow> uuid option \<Rightarrow> int option \<Rightarrow> sql_error + timestamptz" where
  "calculate_message_ttl db now p_message_type p_group_id p_custom_retention_hours =
     (case retention_hours db p_message_type p_group_id p_custom_retention_hours of
        Inl e \<Rightarrow> Inl e
      | Inr h \<Rightarrow> Inr (now + hours_interval h))"

text \<open>\<open>get_message_retention_hours\<close>: the global default, \<open>COALESCE(retention_hours, 24)\<close>.\<close>

definition get_message_retention_hours :: "database \<Rightarrow> sql_error + int" where
  "get_message_retention_hours db =
     (case select_default_retention db of
        Inl e \<Rightarrow> Inl e
      | Inr None \<Rightarrow> Inr 24
      | Inr (Some h) \<Rightarrow> Inr h)"

subsection \<open>Inserting into \<open>messages_v2\<close>\<close>

definition valid_message_type :: "messages_v2_row \<Rightarrow> bool" where
  "valid_message_type m = (message_type m = ''direct'' \<or> message_type m = ''group'')"

definition valid_group_message :: "messages_v2_row \<Rightarrow> bool" where
  "valid_group_message m =
     ((message_type m = ''direct'' \<and> group_id m = None) \<or>
      (message_type m = ''group'' \<and> group_id m \<noteq> None))"

definition valid_pinned_message :: "messages_v2_row \<Rightarrow> bool" where
  "valid_pinned_message m =
     check_passes
       (sql_or (sql_eq (is_pinned m) (Some False))
               (sql_and (sql_eq (is_pinned m) (Some True)) (Some (user_role m = Operator))))"

text \<open>
  \<open>UPDATE users_v2 SET last_active = NOW(), is_online = true WHERE id = ...\<close>, run by the
  trigger \<open>update_user_last_active_v2\<close> after every insert and once more by
  \<open>send_message_v2_guest\<close> itself.
\<close>

definition update_user_last_active :: "database \<Rightarrow> uuid \<Rightarrow> timestamptz \<Rightarrow> database" where
  "update_user_last_active db uid now =
     (case users_v2 db uid of
        None \<Rightarrow> db
      | Some u \<Rightarrow>
          db\<lparr>users_v2 := (users_v2 db)(uid \<mapsto> u\<lparr>u_last_active := Some now, u_is_online := Some True\<rparr>)\<rparr>)"

text \<open>
  The \<open>INSERT\<close>: the table's \<open>CHECK\<close> constraints, its primary key and its two foreign
  keys, then the row trigger. The trigger \<open>notify_message_change\<close> only publishes the row
  and changes no table.
\<close>

definition insert_messages_v2 :: "database \<Rightarrow> timestamptz \<Rightarrow> messages_v2_row \<Rightarrow> sql_error + database" where
  "insert_messages_v2 db now m =
     (if \<not> valid_message_type m then Inl (Check_Violation ''valid_message_type'')
      else if \<not> valid_group_message m then Inl (Check_Violation ''valid_group_message'')
      else if \<not> valid_pinned_message m then Inl (Check_Violation ''valid_pinned_message'')
      else if list_ex (\<lambda>r. row_id r = row_id m) (messages_v2 db)
        then Inl (Unique_Violation ''messages_v2_pkey'')
      else if users_v2 db (user_id m) = None
        then Inl (Foreign_Key_Violation ''messages_v2_user_id_fkey'')
      else if (case group_id m of None \<Rightarrow> False | Some g \<Rightarrow> groups db g = None)
        then Inl (Foreign_Key_Violation ''messages_v2_group_id_fkey'')
      else Inr (update_user_last_active (db\<lparr>messages_v2 := messages_v2 db @ [m]\<rparr>) (user_id m) now))"

subsection \<open>\<open>send_message_v2_guest\<close>\<close>

text \<open>
  \<open>now\<close> is \<open>NOW()\<close>, the start time of the transaction: the same value in the column
  default of \<open>created_at\<close> and inside \<open>calculate_message_ttl\<close>. \<open>new_id\<close> is the value that
  \<open>uuid_generate_v4()\<close> draws for the \<open>id\<close> column.
\<close>

definition send_message_v2_guest ::
  "database \<Rightarrow> timestamptz \<Rightarrow> uuid \<Rightarrow> uuid \<Rightarrow> string \<Rightarrow> string \<Rightarrow> uuid option \<Rightarrow> int option
    \<Rightarrow> sql_error + (database \<times> uuid)" where
  "send_message_v2_guest db now new_id p_user_id p_content p_message_type p_group_id
      p_custom_retention_hours =
     (case users_v2 db p_user_id of
        None \<Rightarrow> Inl (Raised ''User not found'')
      | Some user_data \<Rightarrow>
          (case calculate_message_ttl db now p_message_type p_group_id p_custom_retention_hours of
             Inl e \<Rightarrow> Inl e
           | Inr ttl_timestamp \<Rightarrow>
               (case insert_messages_v2 db now
                       \<lparr>row_id = new_id, user_id = p_user_id,
                        username = u_username user_data,
                        display_name = u_display_name user_data,
                        content = p_content, message_type = p_message_type,
                        group_id = p_group_id, user_role = u_role user_data,
                        created_at = now, expires_at = ttl_timestamp,
                        is_pinned = Some False\<rparr> of
                  Inl e \<Rightarrow> Inl e
                | Inr db' \<Rightarrow> Inr (update_user_last_active db' p_user_id now, new_id))))"

subsection \<open>\<open>toggle_message_pin\<close>\<close>

text \<open>
  \<open>SELECT role INTO operator_role\<close> leaves \<open>operator_role\<close> \<open>NULL\<close> when no user has the
  given id; the \<open>IF operator_role != 'operator'\<close> that follows is taken only when the
  comparison is \<open>TRUE\<close>. \<open>SELECT is_pinned INTO current_pin_status\<close> reads the first row
  with the given id, and the \<open>UPDATE\<close> rewrites every row with that id, under the
  table's \<open>CHECK\<close> constraint \<open>valid_pinned_message\<close>.
\<close>

definition toggle_message_pin ::
  "database \<Rightarrow> uuid \<Rightarrow> uuid \<Rightarrow> sql_error + (database \<times> bool option)" where
  "toggle_message_pin db p_message_id p_operator_id =
     (let operator_role = map_option u_role (users_v2 db p_operator_id)
      in if is_true (sql_not (sql_eq operator_role (Some Operator)))
         then Inl (Raised ''Only operators can pin/unpin messages'')
         else
           (case find (\<lambda>m. row_id m = p_message_id) (messages_v2 db) of
              None \<Rightarrow> Inl (Raised ''Message not found'')
            | Some found \<Rightarrow>
                (let current_pin_status = is_pinned found;
                     rows = map (\<lambda>m. if row_id m = p_message_id
                                      then m\<lparr>is_pinned := sql_not current_pin_status\<rparr> else m)
                                (messages_v2 db)
                 in if list_ex (\<lambda>m. \<not> valid_pinned_message m)
                         (filter (\<lambda>m. row_id m = p_message_id) rows)
                    then Inl (Check_Violation ''valid_pinned_message'')
                    else Inr (db\<lparr>messages_v2 := rows\<rparr>, sql_not current_pin_status))))"

subsection \<open>\<open>cleanup_expired_messages\<close>\<close>

text \<open>
  \<open>DELETE FROM messages_v2 WHERE expires_at < NOW() AND is_pinned = FALSE\<close> as a scan of
  the table that drops the rows on which the condition is \<open>TRUE\<close> and counts them
  (\<open>ROW_COUNT\<close>).
\<close>

fun delete_expired :: "timestamptz \<Rightarrow> messages_v2_row list \<Rightarrow> messages_v2_row list \<times> int" where
  "delete_expired now [] = ([], 0)"
| "delete_expired now (m # ms) =
     (let (kept, row_count) = delete_expired now ms
      in if is_true (sql_and (Some (expires_at m < now)) (sql_eq (is_pinned m) (Some False)))
         then (kept, row_count + 1)
         else (m # kept, row_count))"

definition cleanup_expired_messages :: "database \<Rightarrow> timestamptz \<Rightarrow> database \<times> int" where
  "cleanup_expired_messages db now =
     (let (kept, deleted_count) = delete_expired now (messages_v2 db)
      in (db\<lparr>messages_v2 := kept\<rparr>, deleted_count))"

subsection \<open>\<open>HybridMessagingService.updateMessageRetentionHours\<close>\<close>

text \<open>
  The service updates \<open>app_settings\<close> from the client, so the statement runs under row
  level security: the policy \<open>Only operators can modify app settings\<close> shows it a row
  only when the user of the session (\<open>auth.uid()\<close>) is an operator, and a statement that
  sees no row changes nothing and reports no error. \<open>updated_by\<close> references \<open>users_v2\<close>;
  a violation is the \<open>error\<close> for which the service returns \<open>false\<close>. \<open>hours_text\<close> is
  \<open>hours.toString()\<close> and \<open>now\<close> the client's \<open>new Date()\<close>.
\<close>

definition operator_session :: "database \<Rightarrow> uuid option \<Rightarrow> bool" where
  "operator_session db auth_uid =
     (case auth_uid of
        None \<Rightarrow> False
      | Some a \<Rightarrow> (case users_v2 db a of None \<Rightarrow> False | Some u \<Rightarrow> u_role u = Operator))"

definition updateMessageRetentionHours ::
  "database \<Rightarrow> uuid option \<Rightarrow> timestamptz \<Rightarrow> string \<Rightarrow> uuid \<Rightarrow> database \<times> bool" where
  "updateMessageRetentionHours db auth_uid now hours_text operatorUserId =
     (case app_settings db ''default_message_retention_hours'' of
        None \<Rightarrow> (db, True)
      | Some row \<Rightarrow>
          if \<not> operator_session db auth_uid then (db, True)
          else if users_v2 db operatorUserId = None then (db, False)
          else (db\<lparr>app_settings := (app_settings db)
                      (''default_message_retention_hours'' \<mapsto>
                         row\<lparr>setting_value := hours_text,
                             updated_by := Some operatorUserId,
                             updated_at := Some now\<rparr>)\<rparr>,
                True))"

section \<open>Client side: the local view of the messages\<close>

text \<open>
  \<open>RealtimeMessage\<close> is the client's message type. Its two time fields are ISO strings
  which the client reads only through \<open>new Date(...).getTime()\<close>; they are modelled by
  that number of milliseconds. Its fields carry the prefix \<open>rm_\<close> here. A React state
  update \<open>setMessages(prev => ...)\<close> is the function from the previous list to the next
  one.
\<close>

record RealtimeMessage =
  rm_id :: string
  rm_user_id :: string
  rm_username :: string
  rm_display_name :: "string option"
  rm_content :: string
  rm_created_at :: int
  rm_expires_at :: int
  rm_group_id :: "string option"
  rm_message_type :: string
  rm_user_role :: user_role

subsection \<open>Receiving a message\<close>

text \<open>
  \<open>handleNewMessage\<close> of the \<open>RealtimeChat\<close> component, the one handler that
  \<open>HybridMessagingService.subscribe\<close> calls for a database insert and for a broadcast.
  \<open>Array.prototype.sort\<close> is stable, as \<open>sort_key\<close> is.
\<close>

definition handleNewMessage :: "RealtimeMessage list \<Rightarrow> RealtimeMessage \<Rightarrow> RealtimeMessage list" where
  "handleNewMessage prev message =
     (if list_ex (\<lambda>m. rm_id m = rm_id message) prev then prev
      else sort_key rm_created_at (prev @ [message]))"

text \<open>\<open>RealtimeMessagingService.addMessage\<close>, on the service's map from channel names to lists.\<close>

definition addMessage ::
  "(string \<rightharpoonup> RealtimeMessage list) \<Rightarrow> string \<Rightarrow> RealtimeMessage
    \<Rightarrow> (string \<rightharpoonup> RealtimeMessage list)" where
  "addMessage store channelName message =
     (let messages = (case store channelName of None \<Rightarrow> [] | Some ms \<Rightarrow> ms)
      in if list_ex (\<lambda>m. rm_id m = rm_id message) messages
         then store(channelName \<mapsto> messages)
         else store(channelName \<mapsto> sort_key rm_created_at (messages @ [message])))"

text \<open>The handler of \<open>DirectChat\<close> for an \<open>INSERT\<close> on \<open>messages_v2\<close>.\<close>

definition directChat_insert_handler ::
  "RealtimeMessage list \<Rightarrow> RealtimeMessage \<Rightarrow> RealtimeMessage list" where
  "directChat_insert_handler prev newMessage =
     (if \<not> list_ex (\<lambda>msg. rm_id msg = rm_id newMessage) prev then prev @ [newMessage]
      else map (\<lambda>msg.
                  if take 5 (rm_id msg) = ''temp-'' \<and> rm_content msg = rm_content newMessage \<and>
                     rm_user_id msg = rm_user_id newMessage
                  then newMessage
                  else if rm_id msg = rm_id newMessage then newMessage
                  else msg) prev)"

subsection \<open>Sending from \<open>DirectChat\<close>\<close>

text \<open>
  The component state that \<open>sendMessage\<close> touches. The function awaits the server between
  its optimistic update and its outcome, and other updates of the list may run in
  between, so each stretch between two awaits is a step of its own.
\<close>

record direct_chat =
  messages :: "RealtimeMessage list"
  newMessage :: string
  sending :: bool

record session_user =
  su_id :: string
  su_username :: string
  su_display_name :: "string option"
  su_role :: user_role

text \<open>\<open>String.prototype.trim\<close>, on the white space that fits one byte.\<close>

definition js_white_space :: "char \<Rightarrow> bool" where
  "js_white_space c = (c \<in> set [CHR 0x09, CHR 0x0A, CHR 0x0B, CHR 0x0C, CHR 0x0D, CHR 0x20, CHR 0xA0])"

definition trim :: "string \<Rightarrow> string" where
  "trim s = rev (dropWhile js_white_space (rev (dropWhile js_white_space s)))"

text \<open>
  Up to the first \<open>await\<close>: the guard, then the optimistic entry. \<open>None\<close> is the early
  \<open>return\<close>. \<open>tempId\<close> is the string built from \<open>Date.now()\<close> and \<open>Math.random()\<close>,
  \<open>expires_now\<close> is the \<open>Date.now()\<close> that \<open>expiresAt\<close> is computed from and \<open>created_now\<close>
  the \<open>new Date()\<close> of \<open>created_at\<close>. The result carries the trimmed content and the
  state.
\<close>

definition sendMessage_optimistic ::
  "direct_chat \<Rightarrow> session_user option \<Rightarrow> string \<Rightarrow> int \<Rightarrow> int \<Rightarrow> (string \<times> direct_chat) option" where
  "sendMessage_optimistic st user tempId expires_now created_now =
     (case user of
        None \<Rightarrow> None
      | Some u \<Rightarrow>
          if trim (newMessage st) = [] \<or> sending st then None
          else
            (let content = trim (newMessage st);
                 expiresAt = expires_now + 24 * 60 * 60 * 1000;
                 optimisticMessage =
                   \<lparr>rm_id = tempId, rm_user_id = su_id u, rm_username = su_username u,
                    rm_display_name = su_display_name u, rm_content = content,
                    rm_created_at = created_now, rm_expires_at = expiresAt,
                    rm_group_id = None, rm_message_type = ''direct'',
                    rm_user_role = su_role u\<rparr>
             in Some (content,
                      st\<lparr>sending := True,
                         messages := messages st @ [optimisticMessage],
                         newMessage := []\<rparr>)))"

text \<open>The \<open>try\<close> block after a successful store and fetch, followed by \<open>finally\<close>.\<close>

definition sendMessage_stored :: "direct_chat \<Rightarrow> string \<Rightarrow> RealtimeMessage \<Rightarrow> direct_chat" where
  "sendMessage_stored st tempId storedMessage =
     st\<lparr>messages := map (\<lambda>m. if rm_id m = tempId then storedMessage else m) (messages st),
        sending := False\<rparr>"

text \<open>
  The \<open>catch\<close> block, followed by \<open>finally\<close>; \<open>content'\<close> is the local \<open>content\<close> of
  \<open>sendMessage\<close>.
\<close>

definition sendMessage_catch :: "direct_chat \<Rightarrow> string \<Rightarrow> string \<Rightarrow> direct_chat" where
  "sendMessage_catch st content' tempId =
     st\<lparr>newMessage := content',
        messages := filter (\<lambda>m. rm_id m \<noteq> tempId) (messages st),
        sending := False\<rparr>"

subsection \<open>The periodic sync of \<open>DirectChat\<close>\<close>

text \<open>
  One tick of \<open>syncInterval\<close>. \<open>response\<close> is what the query returned: an error, or the
  rows of the direct messages in ascending \<open>created_at\<close>. \<open>isMessageExpired\<close> belongs to
  the message cleanup service and is a parameter here.
\<close>

definition syncInterval ::
  "(int \<Rightarrow> bool) \<Rightarrow> string + RealtimeMessage list \<Rightarrow> RealtimeMessage list \<Rightarrow> RealtimeMessage list" where
  "syncInterval isMessageExpired response prev =
     (case response of
        Inl error \<Rightarrow> prev
      | Inr data \<Rightarrow>
          (let validMessages = filter (\<lambda>message. \<not> isMessageExpired (rm_expires_at message)) data;
               newMessages = filter (\<lambda>dbMsg. \<not> list_ex (\<lambda>localMsg. rm_id localMsg = rm_id dbMsg) prev)
                                    validMessages
           in if length newMessages > 0 then validMessages else prev))"

section \<open>Example states\<close>

text \<open>
  A small database: a normal user \<open>u1\<close> and an operator \<open>op\<close>, one group \<open>g1\<close> that
  has been deactivated, and a default retention of 48 hours.
\<close>

definition ex_user :: "user_role \<Rightarrow> users_v2_row" where
  "ex_user r = \<lparr>u_username = ''ann'', u_display_name = None, u_role = r,
                u_last_active = None, u_is_online = Some False\<rparr>"

definition ex_setting :: "string \<Rightarrow> app_settings_row" where
  "ex_setting v = \<lparr>setting_value = v, updated_by = None, updated_at = None\<rparr>"

definition ex_row :: "uuid \<Rightarrow> user_role \<Rightarrow> timestamptz \<Rightarrow> bool option \<Rightarrow> messages_v2_row" where
  "ex_row i r e p = \<lparr>row_id = i, user_id = ''u1'', username = ''ann'', display_name = None,
                     content = ''hi'', message_type = ''direct'', group_id = None,
                     user_role = r, created_at = 0, expires_at = e, is_pinned = p\<rparr>"

definition ex_db :: database where
  "ex_db = \<lparr>users_v2 = [''u1'' \<mapsto> ex_user Normal, ''op'' \<mapsto> ex_user Operator],
            groups = [''g1'' \<mapsto> \<lparr>message_deletion_timer = Some 7200, is_active = Some False\<rparr>],
            messages_v2 = [],
            app_settings = [''default_message_retention_hours'' \<mapsto> ex_setting ''48'']\<rparr>"

text \<open>The same with four stored messages, the second one pinned.\<close>

definition sweep_db :: database where
  "sweep_db = ex_db\<lparr>messages_v2 :=
      [ex_row ''m1'' Normal 500 (Some False), ex_row ''m2'' Operator 100 (Some True),
       ex_row ''m3'' Normal 1500 (Some False), ex_row ''m4'' Normal 2500 (Some False)]\<rparr>"

text \<open>And with two stored messages, the operator's one pinned.\<close>

definition pin_db :: database where
  "pin_db = ex_db\<lparr>messages_v2 :=
      [ex_row ''m1'' Normal 500 (Some False), ex_row ''m2'' Operator 100 (Some True)]\<rparr>"

text \<open>A client message, the user of a session, and a chat with one message and a draft.\<close>

definition ex_msg :: "string \<Rightarrow> string \<Rightarrow> int \<Rightarrow> RealtimeMessage" where
  "ex_msg i c t = \<lparr>rm_id = i, rm_user_id = ''u1'', rm_username = ''ann'', rm_display_name = None,
                   rm_content = c, rm_created_at = t, rm_expires_at = t + 86400000,
                   rm_group_id = None, rm_message_type = ''direct'', rm_user_role = Normal\<rparr>"

definition ex_session_user :: session_user where
  "ex_session_user = \<lparr>su_id = ''u1'', su_username = ''ann'', su_display_name = None, su_role = Normal\<rparr>"

definition ex_chat :: direct_chat where
  "ex_chat = \<lparr>messages = [ex_msg ''a'' ''x'' 10], newMessage = '' hello '', sending = False\<rparr>"

section \<open>Properties of the message store\<close>

subsection \<open>Auxiliary facts\<close>

lemma delete_expired_eq:
  "delete_expired now ms =
     (filter (\<lambda>m. \<not> (expires_at m < now \<and> is_pinned m = Some False)) ms,
      int (length (filter (\<lambda>m. expires_at m < now \<and> is_pinned m = Some False) ms)))"
  by (induction ms) (auto simp: is_true_def sql_and_def sql_eq_def split: option.splits)

lemma select_group_retention_none:
  assumes "groups db g = None \<or> (\<exists>r. groups db g = Some r \<and> is_active r \<noteq> Some True)"
  shows "select_group_retention db g = None"
  using assms
  by (auto simp: select_group_retention_def is_true_def sql_eq_def split: option.splits)

lemma send_success_row:
  assumes "send_message_v2_guest db now new_id uid c mt gid custom = Inr (db', mid)"
  shows "\<exists>m. messages_v2 db' = messages_v2 db @ [m] \<and> row_id m = mid \<and>
           created_at m = now \<and> is_pinned m = Some False \<and>
           calculate_message_ttl db now mt gid custom = Inr (expires_at m)"
  using assms
  by (auto simp: send_message_v2_guest_def insert_messages_v2_def update_user_last_active_def
           split: option.splits sum.splits if_splits)

lemma ttl_of_retention_hours:
  "calculate_message_ttl db now mt gid custom = Inr ttl \<Longrightarrow>
     \<exists>h. retention_hours db mt gid custom = Inr h \<and> ttl = now + hours_interval h"
  by (auto simp: calculate_message_ttl_def split: sum.splits)

lemma delete_expired_again:
  assumes "\<forall>m \<in> set ms. is_pinned m = Some False \<longrightarrow> \<not> (now \<le> expires_at m \<and> expires_at m < now')"
  shows "delete_expired now' (fst (delete_expired now ms)) = (fst (delete_expired now ms), 0)"
proof -
  let ?kept = "filter (\<lambda>m. \<not> (expires_at m < now \<and> is_pinned m = Some False)) ms"
  have kept: "fst (delete_expired now ms) = ?kept"
    by (simp only: delete_expired_eq fst_conv)
  have stay: "\<forall>m \<in> set ?kept. \<not> (expires_at m < now' \<and> is_pinned m = Some False)"
    using assms by auto
  have "filter (\<lambda>m. \<not> (expires_at m < now' \<and> is_pinned m = Some False)) ?kept = ?kept"
    using stay by (rule filter_True)
  moreover have "filter (\<lambda>m. expires_at m < now' \<and> is_pinned m = Some False) ?kept = []"
    using stay by (rule filter_False)
  ultimately have "delete_expired now' ?kept = (?kept, 0)"
    by (simp only: delete_expired_eq list.size of_nat_0)
  then show ?thesis
    by (simp only: kept)
qed

lemma toggle_success:
  assumes "toggle_message_pin db mid oid = Inr (db', r)"
  shows "\<exists>m. find (\<lambda>m. row_id m = mid) (messages_v2 db) = Some m \<and>
           r = sql_not (is_pinned m) \<and>
           db' = db\<lparr>messages_v2 := map (\<lambda>x. if row_id x = mid then x\<lparr>is_pinned := r\<rparr> else x)
                                        (messages_v2 db)\<rparr>"
proof (cases "find (\<lambda>m. row_id m = mid) (messages_v2 db)")
  case None
  with assms show ?thesis
    by (simp add: toggle_message_pin_def Let_def split: if_splits)
next
  case (Some m)
  with assms show ?thesis
    by (auto simp: toggle_message_pin_def Let_def split: if_splits)
qed

lemma pinned_after_update:
  assumes "x \<in> set (map (\<lambda>y. if row_id y = i then y\<lparr>is_pinned := r\<rparr> else y) ys)"
    and "row_id x = i"
  shows "is_pinned x = r"
proof -
  from assms(1) have "x \<in> (\<lambda>y. if row_id y = i then y\<lparr>is_pinned := r\<rparr> else y) ` set ys"
    by (simp only: set_map)
  then obtain y where "x = (if row_id y = i then y\<lparr>is_pinned := r\<rparr> else y)"
    by (rule imageE)
  with assms(2) show ?thesis
    by (simp split: if_splits)
qed

text \<open>
  The two checks of \<open>toggle_message_pin\<close> on the inputs they do catch: a caller who is a
  user without the operator role, and an operator naming a message that is not stored.
\<close>

lemma toggle_non_operator:
  "users_v2 db oid = Some u \<Longrightarrow> u_role u \<noteq> Operator \<Longrightarrow>
     toggle_message_pin db mid oid = Inl (Raised ''Only operators can pin/unpin messages'')"
  by (simp add: toggle_message_pin_def is_true_def sql_eq_def sql_not_def)

lemma toggle_not_found:
  assumes "users_v2 db oid = Some u" "u_role u = Operator"
    and "\<not> list_ex (\<lambda>m. row_id m = mid) (messages_v2 db)"
  shows "toggle_message_pin db mid oid = Inl (Raised ''Message not found'')"
proof -
  from assms(3) have "find (\<lambda>m. row_id m = mid) (messages_v2 db) = None"
    by (simp add: find_None_iff list_ex_iff)
  with assms(1,2) show ?thesis
    by (simp add: toggle_message_pin_def is_true_def sql_eq_def sql_not_def)
qed

subsection \<open>Retention of a group message without an active group\<close>

text \<open>
  C1, as the code has it: when no override is given and the group id of a group message
  names no active group (no row, or a row that is not active), \<open>calculate_message_ttl\<close>
  returns \<open>now\<close> plus a fixed 24 hours, whatever \<open>default_message_retention_hours\<close>
  holds, and a message stored by such a send expires at \<open>now\<close> plus 24 hours.
\<close>

theorem group_fallback_is_24_hours:
  assumes "groups db g = None \<or> (\<exists>r. groups db g = Some r \<and> is_active r \<noteq> Some True)"
  shows "calculate_message_ttl db now ''group'' (Some g) None = Inr (now + hours_interval 24) \<and>
         (\<forall>new_id uid c db' mid.
            send_message_v2_guest db now new_id uid c ''group'' (Some g) None = Inr (db', mid)
            \<longrightarrow> (\<exists>m. messages_v2 db' = messages_v2 db @ [m] \<and> row_id m = mid \<and>
                      expires_at m = now + hours_interval 24))"
proof -
  have ttl: "calculate_message_ttl db now ''group'' (Some g) None = Inr (now + hours_interval 24)"
    using select_group_retention_none [OF assms]
    by (simp add: calculate_message_ttl_def retention_hours_def)
  show ?thesis
  proof (intro conjI allI impI)
    show "calculate_message_ttl db now ''group'' (Some g) None = Inr (now + hours_interval 24)"
      by (rule ttl)
  next
    fix new_id uid c db' mid
    assume "send_message_v2_guest db now new_id uid c ''group'' (Some g) None = Inr (db', mid)"
    from send_success_row [OF this] ttl
    show "\<exists>m. messages_v2 db' = messages_v2 db @ [m] \<and> row_id m = mid \<and>
              expires_at m = now + hours_interval 24"
      by auto
  qed
qed

text \<open>The group \<open>g1\<close> of the example is not active, and a send to it is stored with 24 hours.\<close>

theorem group_fallback_is_24_hours_witness:
  "groups ex_db ''g1'' = Some \<lparr>message_deletion_timer = Some 7200, is_active = Some False\<rparr> \<and>
   calculate_message_ttl ex_db 1000 ''group'' (Some ''g1'') None = Inr (1000 + hours_interval 24) \<and>
   (case send_message_v2_guest ex_db 1000 ''m1'' ''u1'' ''hi'' ''group'' (Some ''g1'') None of
      Inl e \<Rightarrow> False
    | Inr (db', mid) \<Rightarrow> map expires_at (messages_v2 db') = [1000 + hours_interval 24])"
proof -
  have g: "groups ex_db ''g1'' = Some \<lparr>message_deletion_timer = Some 7200, is_active = Some False\<rparr>"
    by (simp add: ex_db_def)
  then have h: "groups ex_db ''g1'' = None \<or>
      (\<exists>r. groups ex_db ''g1'' = Some r \<and> is_active r \<noteq> Some True)"
    by simp
  have "\<exists>db' mid. send_message_v2_guest ex_db 1000 ''m1'' ''u1'' ''hi'' ''group'' (Some ''g1'') None
          = Inr (db', mid)"
    by (simp add: ex_db_def ex_user_def ex_setting_def
      calculate_message_ttl_def retention_hours_def select_group_retention_def
      send_message_v2_guest_def insert_messages_v2_def
      valid_message_type_def valid_group_message_def valid_pinned_message_def
      check_passes_def is_true_def sql_eq_def sql_or_def sql_and_def)
  then obtain db' mid where
    s: "send_message_v2_guest ex_db 1000 ''m1'' ''u1'' ''hi'' ''group'' (Some ''g1'') None = Inr (db', mid)"
    by (elim exE)
  have e: "messages_v2 ex_db = []"
    by (simp add: ex_db_def)
  note fallback = group_fallback_is_24_hours [OF h, of 1000]
  from fallback [THEN conjunct2] s
  have "\<exists>m. messages_v2 db' = messages_v2 ex_db @ [m] \<and> row_id m = mid \<and>
            expires_at m = 1000 + hours_interval 24"
    by (elim allE impE)
  with e have "map expires_at (messages_v2 db') = [1000 + hours_interval 24]"
    by auto
  with fallback [THEN conjunct1] g show ?thesis
    by (simp add: s)
qed

text \<open>
  C1 as stated fails: with the default retention set to 48 hours a direct message gets
  48 hours, and a message to the deactivated group \<open>g1\<close> gets 24.
\<close>

theorem group_fallback_ignores_setting_counterexample:
  "get_message_retention_hours ex_db = Inr 48 \<and>
   calculate_message_ttl ex_db 1000 ''direct'' None None = Inr (1000 + hours_interval 48) \<and>
   calculate_message_ttl ex_db 1000 ''group'' (Some ''g1'') None = Inr (1000 + hours_interval 24) \<and>
   (case send_message_v2_guest ex_db 1000 ''m1'' ''u1'' ''hi'' ''group'' (Some ''g1'') None of
      Inl e \<Rightarrow> False
    | Inr (db', mid) \<Rightarrow> map expires_at (messages_v2 db') = [1000 + hours_interval 24])"
  by (simp add: ex_db_def ex_user_def ex_setting_def get_message_retention_hours_def
      calculate_message_ttl_def retention_hours_def select_group_retention_def
      select_default_retention_def
      send_message_v2_guest_def insert_messages_v2_def update_user_last_active_def
      valid_message_type_def valid_group_message_def valid_pinned_message_def
      check_passes_def is_true_def sql_eq_def sql_or_def sql_and_def
      text_to_integer_def is_space_def digit_of_def hours_interval_def)

subsection \<open>Expiry against creation time\<close>

text \<open>
  C2, as the code has it: a message stored by \<open>send_message_v2_guest\<close> is created at
  \<open>now\<close> and expires \<open>h\<close> hours later, where \<open>h\<close> is the retention the resolver arrives at
  (the override when one is given); so its expiry is strictly after its creation exactly
  when \<open>h\<close> is positive.
\<close>

theorem stored_expiry_after_creation_iff_positive_retention:
  assumes "send_message_v2_guest db now new_id uid c mt gid custom = Inr (db', mid)"
  shows "\<exists>m h. messages_v2 db' = messages_v2 db @ [m] \<and> row_id m = mid \<and>
           retention_hours db mt gid custom = Inr h \<and>
           created_at m = now \<and> expires_at m = created_at m + hours_interval h \<and>
           (created_at m < expires_at m \<longleftrightarrow> 0 < h)"
proof -
  from send_success_row [OF assms] obtain m where
    rows: "messages_v2 db' = messages_v2 db @ [m]" "row_id m = mid" "created_at m = now" and
    ttl: "calculate_message_ttl db now mt gid custom = Inr (expires_at m)"
    by blast
  from ttl_of_retention_hours [OF ttl] obtain h where
    h: "retention_hours db mt gid custom = Inr h" "expires_at m = now + hours_interval h"
    by blast
  have "(now < now + hours_interval h) = (0 < h)"
    by (simp add: hours_interval_def)
  with rows h show ?thesis
    by simp
qed

text \<open>A direct message sent with an override of two hours.\<close>

theorem stored_expiry_after_creation_witness:
  "(case send_message_v2_guest ex_db 1000 ''m1'' ''u1'' ''hi'' ''direct'' None (Some 2) of
      Inl e \<Rightarrow> False
    | Inr (db', mid) \<Rightarrow>
        map (\<lambda>m. (row_id m, created_at m, expires_at m)) (messages_v2 db') =
          [(mid, 1000, 7200001000)])"
proof -
  have "\<exists>db' mid. send_message_v2_guest ex_db 1000 ''m1'' ''u1'' ''hi'' ''direct'' None (Some 2)
          = Inr (db', mid)"
    by (simp add: ex_db_def ex_user_def ex_setting_def
      calculate_message_ttl_def retention_hours_def
      send_message_v2_guest_def insert_messages_v2_def
      valid_message_type_def valid_group_message_def valid_pinned_message_def
      check_passes_def is_true_def sql_eq_def sql_or_def sql_and_def)
  then obtain db' mid where
    s: "send_message_v2_guest ex_db 1000 ''m1'' ''u1'' ''hi'' ''direct'' None (Some 2) = Inr (db', mid)"
    by (elim exE)
  have r: "retention_hours ex_db ''direct'' None (Some 2) = Inr 2"
    by (simp add: retention_hours_def)
  have e: "messages_v2 ex_db = []"
    by (simp add: ex_db_def)
  from stored_expiry_after_creation_iff_positive_retention [OF s] r e
  show ?thesis
    by (auto simp: s hours_interval_def)
qed

text \<open>
  C2 as stated fails: a send with the override 0 is stored, and its expiry equals its
  creation time.
\<close>

theorem zero_override_counterexample:
  "(case send_message_v2_guest ex_db 1000 ''m1'' ''u1'' ''hi'' ''direct'' None (Some 0) of
      Inl e \<Rightarrow> False
    | Inr (db', mid) \<Rightarrow>
        map (\<lambda>m. (row_id m, created_at m, expires_at m)) (messages_v2 db') = [(mid, 1000, 1000)])"
  by (simp add: ex_db_def ex_user_def ex_setting_def
      calculate_message_ttl_def retention_hours_def
      send_message_v2_guest_def insert_messages_v2_def update_user_last_active_def
      valid_message_type_def valid_group_message_def valid_pinned_message_def
      check_passes_def is_true_def sql_eq_def sql_or_def sql_and_def hours_interval_def)

subsection \<open>The sweep\<close>

text \<open>
  C3: \<open>cleanup_expired_messages\<close> keeps, in their order, exactly the messages that are
  not both expired before \<open>now\<close> and unpinned, touches no other table, and returns the
  number of messages that are expired and unpinned; what was stored is what is kept
  together with what is expired and unpinned; and every pinned message is still stored
  afterwards, whatever its expiry.
\<close>

theorem cleanup_deletes_exactly_expired_unpinned:
  "cleanup_expired_messages db now =
     (db\<lparr>messages_v2 :=
          filter (\<lambda>m. \<not> (expires_at m < now \<and> is_pinned m = Some False)) (messages_v2 db)\<rparr>,
      int (length (filter (\<lambda>m. expires_at m < now \<and> is_pinned m = Some False) (messages_v2 db))))
   \<and> mset (messages_v2 db) =
       mset (messages_v2 (fst (cleanup_expired_messages db now))) +
       filter_mset (\<lambda>m. expires_at m < now \<and> is_pinned m = Some False) (mset (messages_v2 db))
   \<and> (\<forall>m \<in> set (messages_v2 db). is_pinned m = Some True \<longrightarrow>
         m \<in> set (messages_v2 (fst (cleanup_expired_messages db now))))"
proof (intro conjI ballI impI)
  show eq: "cleanup_expired_messages db now =
     (db\<lparr>messages_v2 :=
          filter (\<lambda>m. \<not> (expires_at m < now \<and> is_pinned m = Some False)) (messages_v2 db)\<rparr>,
      int (length (filter (\<lambda>m. expires_at m < now \<and> is_pinned m = Some False) (messages_v2 db))))"
    by (simp add: cleanup_expired_messages_def delete_expired_eq)
  have kept: "messages_v2 (fst (cleanup_expired_messages db now)) =
      filter (\<lambda>m. \<not> (expires_at m < now \<and> is_pinned m = Some False)) (messages_v2 db)"
    by (simp add: eq)
  show "mset (messages_v2 db) =
       mset (messages_v2 (fst (cleanup_expired_messages db now))) +
       filter_mset (\<lambda>m. expires_at m < now \<and> is_pinned m = Some False) (mset (messages_v2 db))"
    unfolding kept mset_filter
    by (subst add.commute) (rule multiset_partition)
  fix m
  assume "m \<in> set (messages_v2 db)" "is_pinned m = Some True"
  then show "m \<in> set (messages_v2 (fst (cleanup_expired_messages db now)))"
    unfolding kept by simp
qed

text \<open>
  At time 1000 the sweep of the example removes \<open>m1\<close> alone; the pinned \<open>m2\<close>, which
  expired at 100, stays.
\<close>

theorem cleanup_deletes_exactly_expired_unpinned_witness:
  "cleanup_expired_messages sweep_db 1000 =
     (sweep_db\<lparr>messages_v2 := [ex_row ''m2'' Operator 100 (Some True),
        ex_row ''m3'' Normal 1500 (Some False), ex_row ''m4'' Normal 2500 (Some False)]\<rparr>, 1) \<and>
   ex_row ''m2'' Operator 100 (Some True) \<in> set (messages_v2 sweep_db) \<and>
   ex_row ''m2'' Operator 100 (Some True)
     \<in> set (messages_v2 (fst (cleanup_expired_messages sweep_db 1000)))"
  using cleanup_deletes_exactly_expired_unpinned [of sweep_db 1000]
  by (simp add: sweep_db_def ex_row_def)

text \<open>
  C4: a second sweep, at a time \<open>now'\<close> such that no unpinned message expires between the
  time \<open>now\<close> of the first sweep and \<open>now'\<close>, deletes nothing and leaves the database as
  the first sweep left it.
\<close>

theorem second_cleanup_deletes_nothing:
  assumes "\<forall>m \<in> set (messages_v2 db).
             is_pinned m = Some False \<longrightarrow> \<not> (now \<le> expires_at m \<and> expires_at m < now')"
  shows "cleanup_expired_messages (fst (cleanup_expired_messages db now)) now' =
           (fst (cleanup_expired_messages db now), 0)"
  using delete_expired_again [OF assms]
  by (simp add: cleanup_expired_messages_def split_def Let_def)

text \<open>
  In the example the first sweep, at 1000, deletes one message; no message expires
  between 1000 and 1200, so a second sweep at 1200, or at 1000 again, deletes none.
\<close>

theorem second_cleanup_deletes_nothing_witness:
  "snd (cleanup_expired_messages sweep_db 1000) = 1 \<and>
   cleanup_expired_messages (fst (cleanup_expired_messages sweep_db 1000)) 1200 =
     (fst (cleanup_expired_messages sweep_db 1000), 0) \<and>
   cleanup_expired_messages (fst (cleanup_expired_messages sweep_db 1000)) 1000 =
     (fst (cleanup_expired_messages sweep_db 1000), 0)"
proof -
  have first: "snd (cleanup_expired_messages sweep_db 1000) = 1"
    by (simp add: cleanup_expired_messages_def delete_expired_eq sweep_db_def ex_row_def)
  have later: "\<forall>m \<in> set (messages_v2 sweep_db).
          is_pinned m = Some False \<longrightarrow> \<not> (1000 \<le> expires_at m \<and> expires_at m < 1200)"
    by (simp add: sweep_db_def ex_row_def)
  have same: "\<forall>m \<in> set (messages_v2 sweep_db).
          is_pinned m = Some False \<longrightarrow> \<not> (1000 \<le> expires_at m \<and> expires_at m < 1000)"
    by simp
  from first second_cleanup_deletes_nothing [OF later] second_cleanup_deletes_nothing [OF same]
  show ?thesis
    by (intro conjI)
qed

subsection \<open>Pinning\<close>

text \<open>
  C6, as the code has it: a successful \<open>toggle_message_pin\<close> finds the message, sets the
  pinned flag of every row with that id to the negation of the flag it read, changes
  nothing else, and returns that negation. The call has no requested value.
\<close>

theorem toggle_negates_pin:
  assumes "toggle_message_pin db mid oid = Inr (db', r)"
  shows "\<exists>m. find (\<lambda>m. row_id m = mid) (messages_v2 db) = Some m \<and>
           r = sql_not (is_pinned m) \<and>
           db' = db\<lparr>messages_v2 := map (\<lambda>x. if row_id x = mid then x\<lparr>is_pinned := r\<rparr> else x)
                                        (messages_v2 db)\<rparr> \<and>
           (\<forall>x \<in> set (messages_v2 db'). row_id x = mid \<longrightarrow> is_pinned x = r)"
  using toggle_success [OF assms]
proof (elim exE conjE)
  fix m
  assume m: "find (\<lambda>m. row_id m = mid) (messages_v2 db) = Some m" "r = sql_not (is_pinned m)"
    and db': "db' = db\<lparr>messages_v2 := map (\<lambda>x. if row_id x = mid then x\<lparr>is_pinned := r\<rparr> else x)
                                        (messages_v2 db)\<rparr>"
  have rows: "messages_v2 db' = map (\<lambda>x. if row_id x = mid then x\<lparr>is_pinned := r\<rparr> else x)
                                        (messages_v2 db)"
    by (subst db') simp
  have "\<forall>x \<in> set (messages_v2 db'). row_id x = mid \<longrightarrow> is_pinned x = r"
    unfolding rows by (intro ballI impI) (rule pinned_after_update)
  with m db' show ?thesis
    by (intro exI [of _ m] conjI)
qed

text \<open>The operator toggles the pinned message \<open>m2\<close> of the example.\<close>

theorem toggle_negates_pin_witness:
  "toggle_message_pin pin_db ''m2'' ''op'' =
     Inr (pin_db\<lparr>messages_v2 := [ex_row ''m1'' Normal 500 (Some False),
                                  ex_row ''m2'' Operator 100 (Some False)]\<rparr>, Some False) \<and>
   find (\<lambda>m. row_id m = ''m2'') (messages_v2 pin_db) = Some (ex_row ''m2'' Operator 100 (Some True)) \<and>
   Some False = sql_not (is_pinned (ex_row ''m2'' Operator 100 (Some True)))"
proof -
  have t: "toggle_message_pin pin_db ''m2'' ''op'' =
     Inr (pin_db\<lparr>messages_v2 := [ex_row ''m1'' Normal 500 (Some False),
                                  ex_row ''m2'' Operator 100 (Some False)]\<rparr>, Some False)"
    by (simp add: pin_db_def ex_db_def ex_row_def ex_user_def toggle_message_pin_def
        valid_pinned_message_def check_passes_def is_true_def sql_eq_def sql_or_def
        sql_and_def sql_not_def)
  have f: "find (\<lambda>m. row_id m = ''m2'') (messages_v2 pin_db) =
             Some (ex_row ''m2'' Operator 100 (Some True))"
    by (simp add: pin_db_def ex_row_def)
  from toggle_negates_pin [OF t] show ?thesis
  proof (elim exE conjE)
    fix m
    assume found: "find (\<lambda>m. row_id m = ''m2'') (messages_v2 pin_db) = Some m"
      and negated: "Some False = sql_not (is_pinned m)"
    from found f have "m = ex_row ''m2'' Operator 100 (Some True)"
      by (simp only: option.inject)
    with negated have "Some False = sql_not (is_pinned (ex_row ''m2'' Operator 100 (Some True)))"
      by (simp only:)
    with t f show ?thesis
      by (intro conjI)
  qed
qed

text \<open>
  C6 as stated fails for the requested value \<open>true\<close> on a message that is pinned: the
  operator's call succeeds, leaves the message unpinned and returns \<open>false\<close>.
\<close>

theorem toggle_on_pinned_counterexample:
  "map_option u_role (users_v2 pin_db ''op'') = Some Operator \<and>
   map (\<lambda>m. (row_id m, is_pinned m)) (messages_v2 pin_db) =
      [(''m1'', Some False), (''m2'', Some True)] \<and>
   (case toggle_message_pin pin_db ''m2'' ''op'' of
      Inl e \<Rightarrow> False
    | Inr (db', r) \<Rightarrow> r = Some False \<and>
        map (\<lambda>m. (row_id m, is_pinned m)) (messages_v2 db') =
          [(''m1'', Some False), (''m2'', Some False)])"
  by (simp add: pin_db_def ex_db_def ex_row_def ex_user_def toggle_message_pin_def
        valid_pinned_message_def check_passes_def is_true_def sql_eq_def sql_or_def
        sql_and_def sql_not_def)

text \<open>
  C7 at a caller id that no row of \<open>users_v2\<close> carries: \<open>operator_role\<close> is \<open>NULL\<close>, the
  permission check does not fire, and the call unpins the message \<open>m2\<close> instead of
  failing.
\<close>

theorem toggle_by_unknown_caller:
  "users_v2 pin_db ''nobody'' = None \<and>
   (case toggle_message_pin pin_db ''m2'' ''nobody'' of
      Inl e \<Rightarrow> False
    | Inr (db', r) \<Rightarrow> r = Some False \<and>
        map (\<lambda>m. (row_id m, is_pinned m)) (messages_v2 db') =
          [(''m1'', Some False), (''m2'', Some False)])"
  by (simp add: pin_db_def ex_db_def ex_row_def ex_user_def toggle_message_pin_def
        valid_pinned_message_def check_passes_def is_true_def sql_eq_def sql_or_def
        sql_and_def sql_not_def)

subsection \<open>Changing the default retention\<close>

text \<open>
  C10: \<open>updateMessageRetentionHours\<close> leaves the stored messages, the users and the groups
  as they are, and changes no setting other than \<open>default_message_retention_hours\<close>.
\<close>

theorem retention_update_changes_one_setting:
  "messages_v2 (fst (updateMessageRetentionHours db auth_uid now hours_text operatorUserId))
     = messages_v2 db \<and>
   users_v2 (fst (updateMessageRetentionHours db auth_uid now hours_text operatorUserId))
     = users_v2 db \<and>
   groups (fst (updateMessageRetentionHours db auth_uid now hours_text operatorUserId))
     = groups db \<and>
   app_settings (fst (updateMessageRetentionHours db auth_uid now hours_text operatorUserId))
     = (app_settings db)
         (''default_message_retention_hours'' :=
            app_settings (fst (updateMessageRetentionHours db auth_uid now hours_text operatorUserId))
              ''default_message_retention_hours'')"
  by (auto simp: updateMessageRetentionHours_def split: option.splits)

text \<open>The operator sets the default to 12 hours; the four stored messages keep their expiry.\<close>

theorem retention_update_changes_one_setting_witness:
  "map_option setting_value
     (app_settings (fst (updateMessageRetentionHours sweep_db (Some ''op'') 900 ''12'' ''op''))
        ''default_message_retention_hours'') = Some ''12'' \<and>
   snd (updateMessageRetentionHours sweep_db (Some ''op'') 900 ''12'' ''op'') \<and>
   messages_v2 (fst (updateMessageRetentionHours sweep_db (Some ''op'') 900 ''12'' ''op''))
     = messages_v2 sweep_db \<and>
   map expires_at (messages_v2 sweep_db) = [500, 100, 1500, 2500]"
proof -
  have s: "map_option setting_value
     (app_settings (fst (updateMessageRetentionHours sweep_db (Some ''op'') 900 ''12'' ''op''))
        ''default_message_retention_hours'') = Some ''12'' \<and>
     snd (updateMessageRetentionHours sweep_db (Some ''op'') 900 ''12'' ''op'')"
    by (simp add: updateMessageRetentionHours_def operator_session_def sweep_db_def ex_db_def
        ex_user_def ex_setting_def)
  have e: "map expires_at (messages_v2 sweep_db) = [500, 100, 1500, 2500]"
    by (simp add: sweep_db_def ex_row_def)
  from retention_update_changes_one_setting [of sweep_db "Some ''op''" 900 "''12''" "''op''"] s e
  show ?thesis
    by (intro conjI) (elim conjE, assumption)+
qed

section \<open>Properties of the local view\<close>

subsection \<open>Receiving\<close>

text \<open>
  What the three handlers do with a message whose id the view holds, and with one whose
  id it does not hold.
\<close>

lemma handleNewMessage_known:
  "list_ex (\<lambda>m. rm_id m = rm_id msg) prev \<Longrightarrow> handleNewMessage prev msg = prev"
  by (simp add: handleNewMessage_def)

lemma handleNewMessage_new:
  assumes "\<not> list_ex (\<lambda>m. rm_id m = rm_id msg) prev"
  shows "mset (handleNewMessage prev msg) = mset prev + {#msg#}"
    and "sorted (map rm_created_at (handleNewMessage prev msg))"
  using assms by (simp_all add: handleNewMessage_def)

lemma addMessage_handleNewMessage:
  "addMessage store ch msg =
     store(ch \<mapsto> handleNewMessage (case store ch of None \<Rightarrow> [] | Some ms \<Rightarrow> ms) msg)"
  by (simp add: addMessage_def handleNewMessage_def Let_def)

lemma directChat_insert_known:
  assumes "list_ex (\<lambda>m. rm_id m = rm_id msg) prev"
  shows "directChat_insert_handler prev msg =
           map (\<lambda>m. if rm_id m = rm_id msg \<or>
                        (take 5 (rm_id m) = ''temp-'' \<and> rm_content m = rm_content msg \<and>
                         rm_user_id m = rm_user_id msg)
                     then msg else m) prev"
  using assms by (auto simp: directChat_insert_handler_def)

lemma directChat_insert_known_copy:
  assumes "list_ex (\<lambda>m. rm_id m = rm_id msg) prev"
    and "m \<in> set (directChat_insert_handler prev msg)" and "rm_id m = rm_id msg"
  shows "m = msg"
proof -
  from assms(2) have "m \<in> (\<lambda>m. if rm_id m = rm_id msg \<or>
                        (take 5 (rm_id m) = ''temp-'' \<and> rm_content m = rm_content msg \<and>
                         rm_user_id m = rm_user_id msg)
                     then msg else m) ` set prev"
    by (simp only: directChat_insert_known [OF assms(1)] set_map)
  then obtain x where "m = (if rm_id x = rm_id msg \<or>
                        (take 5 (rm_id x) = ''temp-'' \<and> rm_content x = rm_content msg \<and>
                         rm_user_id x = rm_user_id msg)
                     then msg else x)"
    by (rule imageE)
  then have "m = msg \<or> (m = x \<and> rm_id x \<noteq> rm_id msg)"
    by (cases "rm_id x = rm_id msg") (simp_all split: if_splits)
  with assms(3) show ?thesis
    by blast
qed

lemma directChat_insert_new:
  "\<not> list_ex (\<lambda>m. rm_id m = rm_id msg) prev \<Longrightarrow> directChat_insert_handler prev msg = prev @ [msg]"
  by (simp add: directChat_insert_handler_def)

text \<open>
  When the copy received for a known id is the entry the view holds, as it is for the
  stored row that both delivery paths hand over, leaving the view as it is and putting
  the copy in the entry's place are the same thing.
\<close>

lemma handleNewMessage_known_replaces:
  assumes "list_ex (\<lambda>m. rm_id m = rm_id msg) prev"
    and "\<forall>m \<in> set prev. rm_id m = rm_id msg \<longrightarrow> m = msg"
  shows "handleNewMessage prev msg = map (\<lambda>m. if rm_id m = rm_id msg then msg else m) prev"
proof -
  have "map (\<lambda>m. if rm_id m = rm_id msg then msg else m) prev = prev"
  proof (rule map_idI)
    fix m
    assume "m \<in> set prev"
    with assms(2) show "(if rm_id m = rm_id msg then msg else m) = m"
      by auto
  qed
  with handleNewMessage_known [OF assms(1)] show ?thesis
    by simp
qed

text \<open>
  C5 at a new message that was created before one the view already holds: the view
  holds \<open>a\<close> and \<open>c\<close>, created at 10 and 30, in this order, and \<open>b\<close>, created at 20,
  arrives. The handler of \<open>DirectChat\<close> puts \<open>b\<close> after \<open>c\<close> and the view is no longer
  ascending in \<open>created_at\<close>; \<open>handleNewMessage\<close>, on the same view and message, sorts.
\<close>

theorem directChat_insert_leaves_view_unsorted:
  "\<not> list_ex (\<lambda>m. rm_id m = rm_id (ex_msg ''b'' ''y'' 20))
         [ex_msg ''a'' ''x'' 10, ex_msg ''c'' ''x'' 30] \<and>
   sorted (map rm_created_at [ex_msg ''a'' ''x'' 10, ex_msg ''c'' ''x'' 30]) \<and>
   map (\<lambda>m. (rm_id m, rm_created_at m))
     (directChat_insert_handler [ex_msg ''a'' ''x'' 10, ex_msg ''c'' ''x'' 30] (ex_msg ''b'' ''y'' 20)) =
     [(''a'', 10), (''c'', 30), (''b'', 20)] \<and>
   \<not> sorted (map rm_created_at
     (directChat_insert_handler [ex_msg ''a'' ''x'' 10, ex_msg ''c'' ''x'' 30] (ex_msg ''b'' ''y'' 20))) \<and>
   map (\<lambda>m. (rm_id m, rm_created_at m))
     (handleNewMessage [ex_msg ''a'' ''x'' 10, ex_msg ''c'' ''x'' 30] (ex_msg ''b'' ''y'' 20)) =
     [(''a'', 10), (''b'', 20), (''c'', 30)]"
  by (simp add: handleNewMessage_def directChat_insert_handler_def ex_msg_def)

subsection \<open>A failed send\<close>

lemma filter_fresh_id:
  assumes "i \<notin> rm_id ` set ms"
  shows "filter (\<lambda>m. rm_id m \<noteq> i) ms = ms"
proof (rule filter_True)
  show "\<forall>m \<in> set ms. rm_id m \<noteq> i"
    using assms by blast
qed

lemma sendMessage_optimistic_messages:
  assumes "sendMessage_optimistic st user tempId t1 t2 = Some (c, st1)"
  shows "\<exists>m. messages st1 = messages st @ [m] \<and> rm_id m = tempId \<and> rm_content m = c \<and>
             c = trim (newMessage st) \<and> c \<noteq> [] \<and> sending st1 \<and> newMessage st1 = []"
  using assms
  by (auto simp: sendMessage_optimistic_def Let_def split: option.splits if_splits)

text \<open>
  C8, as the code has it: when a send fails, the \<open>catch\<close> block removes the provisional
  entry from the view, leaves every other entry in its place, puts the content back into
  the input field and clears \<open>sending\<close>; if the id of the provisional entry was new when
  it was added, the view is again what it was before the send.
\<close>

theorem failed_send_removes_provisional:
  "tempId \<notin> rm_id ` set (messages (sendMessage_catch st c tempId)) \<and>
   messages (sendMessage_catch st c tempId) = filter (\<lambda>m. rm_id m \<noteq> tempId) (messages st) \<and>
   newMessage (sendMessage_catch st c tempId) = c \<and>
   \<not> sending (sendMessage_catch st c tempId) \<and>
   (\<forall>st0 user t1 t2.
      sendMessage_optimistic st0 user tempId t1 t2 = Some (c, st) \<and>
      tempId \<notin> rm_id ` set (messages st0)
      \<longrightarrow> messages (sendMessage_catch st c tempId) = messages st0)"
proof (intro conjI allI impI)
  show "tempId \<notin> rm_id ` set (messages (sendMessage_catch st c tempId))"
    by (auto simp: sendMessage_catch_def)
  show "messages (sendMessage_catch st c tempId) = filter (\<lambda>m. rm_id m \<noteq> tempId) (messages st)"
    by (simp add: sendMessage_catch_def)
  show "newMessage (sendMessage_catch st c tempId) = c"
    by (simp add: sendMessage_catch_def)
  show "\<not> sending (sendMessage_catch st c tempId)"
    by (simp add: sendMessage_catch_def)
next
  fix st0 user t1 t2
  assume a: "sendMessage_optimistic st0 user tempId t1 t2 = Some (c, st) \<and>
      tempId \<notin> rm_id ` set (messages st0)"
  then obtain m where m: "messages st = messages st0 @ [m]" "rm_id m = tempId"
    using sendMessage_optimistic_messages by blast
  from a have "filter (\<lambda>m. rm_id m \<noteq> tempId) (messages st0) = messages st0"
    by (intro filter_fresh_id) simp
  with m show "messages (sendMessage_catch st c tempId) = messages st0"
    by (simp add: sendMessage_catch_def)
qed

text \<open>The draft of the example is sent as \<open>temp-7\<close> and fails.\<close>

theorem failed_send_removes_provisional_witness:
  "sendMessage_optimistic ex_chat (Some ex_session_user) ''temp-7'' 50 50 =
     Some (''hello'',
           \<lparr>messages = [ex_msg ''a'' ''x'' 10, ex_msg ''temp-7'' ''hello'' 50],
            newMessage = [], sending = True\<rparr>) \<and>
   ''temp-7'' \<notin> rm_id ` set (messages ex_chat) \<and>
   messages (sendMessage_catch
      \<lparr>messages = [ex_msg ''a'' ''x'' 10, ex_msg ''temp-7'' ''hello'' 50],
       newMessage = [], sending = True\<rparr> ''hello'' ''temp-7'') = messages ex_chat"
proof -
  have o: "sendMessage_optimistic ex_chat (Some ex_session_user) ''temp-7'' 50 50 =
     Some (''hello'',
           \<lparr>messages = [ex_msg ''a'' ''x'' 10, ex_msg ''temp-7'' ''hello'' 50],
            newMessage = [], sending = True\<rparr>)"
    by (simp add: sendMessage_optimistic_def ex_chat_def ex_session_user_def ex_msg_def trim_def
      js_white_space_def Let_def)
  have f: "''temp-7'' \<notin> rm_id ` set (messages ex_chat)"
    by (simp add: ex_chat_def ex_msg_def)
  note t = failed_send_removes_provisional
      [of "''temp-7''" "\<lparr>messages = [ex_msg ''a'' ''x'' 10, ex_msg ''temp-7'' ''hello'' 50],
            newMessage = [], sending = True\<rparr>" "''hello''"]
  from t have "\<forall>st0 user t1 t2.
      sendMessage_optimistic st0 user ''temp-7'' t1 t2 =
        Some (''hello'', \<lparr>messages = [ex_msg ''a'' ''x'' 10, ex_msg ''temp-7'' ''hello'' 50],
            newMessage = [], sending = True\<rparr>) \<and>
      ''temp-7'' \<notin> rm_id ` set (messages st0)
      \<longrightarrow> messages (sendMessage_catch \<lparr>messages = [ex_msg ''a'' ''x'' 10, ex_msg ''temp-7'' ''hello'' 50],
            newMessage = [], sending = True\<rparr> ''hello'' ''temp-7'') = messages st0"
    by (elim conjE)
  with o f have "messages (sendMessage_catch \<lparr>messages = [ex_msg ''a'' ''x'' 10, ex_msg ''temp-7'' ''hello'' 50],
            newMessage = [], sending = True\<rparr> ''hello'' ''temp-7'') = messages ex_chat"
    by blast
  with o f show ?thesis
    by (intro conjI)
qed

text \<open>
  C8 as stated fails: after the failure the view no longer holds the provisional entry
  it held before.
\<close>

theorem failed_send_discards_provisional_counterexample:
  "(case sendMessage_optimistic ex_chat (Some ex_session_user) ''temp-7'' 50 50 of
      None \<Rightarrow> False
    | Some (c, st) \<Rightarrow>
        map rm_id (messages st) = [''a'', ''temp-7''] \<and>
        map rm_id (messages (sendMessage_catch st c ''temp-7'')) = [''a''])"
  by (simp add: sendMessage_optimistic_def sendMessage_catch_def ex_chat_def ex_session_user_def
      ex_msg_def trim_def js_white_space_def Let_def)

subsection \<open>The periodic sync\<close>

lemma syncInterval_length:
  "(0 < length (filter (\<lambda>d. \<not> list_ex (\<lambda>l. rm_id l = rm_id d) prev) valid)) =
     (\<exists>m \<in> set valid. rm_id m \<notin> rm_id ` set prev)"
proof -
  have "(\<exists>d \<in> set valid. \<not> list_ex (\<lambda>l. rm_id l = rm_id d) prev) =
          (\<exists>m \<in> set valid. rm_id m \<notin> rm_id ` set prev)"
    unfolding list_ex_iff image_iff by metis
  then show ?thesis
    by (simp add: filter_empty_conv)
qed

text \<open>
  C9, as the code has it: a tick of the sync whose query failed leaves the view as it
  is; when some fetched message that is not expired has an id the view lacks, the view
  becomes the list of the fetched messages that are not expired, whatever it held; and
  when the view has the id of every such message, the view stays as it is.
\<close>

theorem sync_replaces_only_when_server_has_new:
  "syncInterval expired (Inl e) prev = prev \<and>
   ((\<exists>m \<in> set (filter (\<lambda>m. \<not> expired (rm_expires_at m)) data). rm_id m \<notin> rm_id ` set prev)
      \<longrightarrow> syncInterval expired (Inr data) prev = filter (\<lambda>m. \<not> expired (rm_expires_at m)) data) \<and>
   ((\<forall>m \<in> set (filter (\<lambda>m. \<not> expired (rm_expires_at m)) data). rm_id m \<in> rm_id ` set prev)
      \<longrightarrow> syncInterval expired (Inr data) prev = prev)"
proof (intro conjI impI)
  show "syncInterval expired (Inl e) prev = prev"
    by (simp add: syncInterval_def)
next
  assume "\<exists>m \<in> set (filter (\<lambda>m. \<not> expired (rm_expires_at m)) data). rm_id m \<notin> rm_id ` set prev"
  then have "0 < length (filter (\<lambda>d. \<not> list_ex (\<lambda>l. rm_id l = rm_id d) prev)
                          (filter (\<lambda>m. \<not> expired (rm_expires_at m)) data))"
    unfolding syncInterval_length .
  then show "syncInterval expired (Inr data) prev = filter (\<lambda>m. \<not> expired (rm_expires_at m)) data"
    by (simp only: syncInterval_def Let_def sum.case if_True)
next
  assume "\<forall>m \<in> set (filter (\<lambda>m. \<not> expired (rm_expires_at m)) data). rm_id m \<in> rm_id ` set prev"
  then have "\<not> (\<exists>m \<in> set (filter (\<lambda>m. \<not> expired (rm_expires_at m)) data). rm_id m \<notin> rm_id ` set prev)"
    by blast
  then have "\<not> 0 < length (filter (\<lambda>d. \<not> list_ex (\<lambda>l. rm_id l = rm_id d) prev)
                          (filter (\<lambda>m. \<not> expired (rm_expires_at m)) data))"
    unfolding syncInterval_length .
  then show "syncInterval expired (Inr data) prev = prev"
    by (simp only: syncInterval_def Let_def sum.case if_False)
qed

text \<open>A tick that brings the new message \<open>c\<close>, and a tick that brings nothing new.\<close>

theorem sync_replaces_only_when_server_has_new_witness:
  "syncInterval (\<lambda>t. False) (Inr [ex_msg ''a'' ''x'' 10, ex_msg ''c'' ''z'' 30])
       [ex_msg ''a'' ''x'' 10] = [ex_msg ''a'' ''x'' 10, ex_msg ''c'' ''z'' 30] \<and>
   syncInterval (\<lambda>t. False) (Inr [ex_msg ''a'' ''x'' 10])
       [ex_msg ''a'' ''x'' 10, ex_msg ''b'' ''y'' 20] = [ex_msg ''a'' ''x'' 10, ex_msg ''b'' ''y'' 20]"
proof -
  have v1: "filter (\<lambda>m. \<not> (\<lambda>t. False) (rm_expires_at m)) [ex_msg ''a'' ''x'' 10, ex_msg ''c'' ''z'' 30]
          = [ex_msg ''a'' ''x'' 10, ex_msg ''c'' ''z'' 30]"
    by simp
  have v2: "filter (\<lambda>m. \<not> (\<lambda>t. False) (rm_expires_at m)) [ex_msg ''a'' ''x'' 10] = [ex_msg ''a'' ''x'' 10]"
    by simp
  have new: "\<exists>m \<in> set (filter (\<lambda>m. \<not> (\<lambda>t. False) (rm_expires_at m))
                  [ex_msg ''a'' ''x'' 10, ex_msg ''c'' ''z'' 30]).
               rm_id m \<notin> rm_id ` set [ex_msg ''a'' ''x'' 10]"
    by (simp add: ex_msg_def)
  have old: "\<forall>m \<in> set (filter (\<lambda>m. \<not> (\<lambda>t. False) (rm_expires_at m)) [ex_msg ''a'' ''x'' 10]).
               rm_id m \<in> rm_id ` set [ex_msg ''a'' ''x'' 10, ex_msg ''b'' ''y'' 20]"
    by (simp add: ex_msg_def)
  note t1 = sync_replaces_only_when_server_has_new
    [of "\<lambda>t. False" _ "[ex_msg ''a'' ''x'' 10]" "[ex_msg ''a'' ''x'' 10, ex_msg ''c'' ''z'' 30]",
     THEN conjunct2, THEN conjunct1, THEN mp, OF new]
  note t2 = sync_replaces_only_when_server_has_new
    [of "\<lambda>t. False" _ "[ex_msg ''a'' ''x'' 10, ex_msg ''b'' ''y'' 20]" "[ex_msg ''a'' ''x'' 10]",
     THEN conjunct2, THEN conjunct2, THEN mp, OF old]
  from t1 v1 have r1: "syncInterval (\<lambda>t. False) (Inr [ex_msg ''a'' ''x'' 10, ex_msg ''c'' ''z'' 30])
       [ex_msg ''a'' ''x'' 10] = [ex_msg ''a'' ''x'' 10, ex_msg ''c'' ''z'' 30]"
    by (simp only:)
  from r1 t2 show ?thesis
    by (intro conjI)
qed

text \<open>
  C9 as stated fails: a tick that finds nothing new keeps the entry \<open>b\<close> that the server
  no longer has, and a tick that finds the new message \<open>c\<close> drops the provisional entry
  \<open>temp-1\<close>.
\<close>

theorem sync_keeps_stale_entries_counterexample:
  "map rm_id (syncInterval (\<lambda>t. False) (Inr [ex_msg ''a'' ''x'' 10])
                [ex_msg ''a'' ''x'' 10, ex_msg ''b'' ''y'' 20]) = [''a'', ''b''] \<and>
   map rm_id (syncInterval (\<lambda>t. False) (Inr [ex_msg ''a'' ''x'' 10, ex_msg ''c'' ''z'' 30])
                [ex_msg ''a'' ''x'' 10, ex_msg ''temp-1'' ''y'' 20]) = [''a'', ''c'']"
  by (simp add: syncInterval_def ex_msg_def)

end
